theory Spec2Isabelle
  imports Complex_Main "HOL-Library.Word"
begin

section \<open>JavaScript values, exceptions and effects\<close>

text \<open>
  The two route handlers (\<^verbatim>\<open>src/app/api/webhook/paystack/route.ts\<close> and the
  \<^verbatim>\<open>/api/subscribe\<close> route) and the two libraries they call (\<^verbatim>\<open>lib/paystack.ts\<close>,
  \<^verbatim>\<open>lib/email.ts\<close>) are embedded as functions that return the list of calls made to the
  outside (the payment gateway through axios, the mail provider through Plunk) together
  with their result. Console output is not part of the model.

  A value produced by \<^verbatim>\<open>request.json()\<close> is a \<open>json\<close>; a JavaScript value that may be
  \<^verbatim>\<open>undefined\<close> is a \<open>json option\<close>. Numbers are the exact rationals they denote.
\<close>

datatype json =
    JNull
  | JBool bool
  | JNum rat
  | JStr string
  | JArr "json list"
  | JObj "(string \<times> json) list"

text \<open>
  The only thing the source reads off a caught error is
  \<^verbatim>\<open>error.response?.data?.message\<close>; an error is therefore that optional message
  (\<open>None\<close> for a \<^verbatim>\<open>TypeError\<close>, a \<^verbatim>\<open>SyntaxError\<close>, a network failure).
\<close>

type_synonym js_error = "string option"

datatype 'a outcome = Returned 'a | Thrown js_error

text \<open>
  JavaScript truthiness of a parsed value and of a string that may be absent
  (\<^verbatim>\<open>null\<close>, \<^verbatim>\<open>undefined\<close>), and \<^verbatim>\<open>a || b\<close> on such strings.
\<close>

fun truthy :: "json option \<Rightarrow> bool" where
  "truthy None = False"
| "truthy (Some JNull) = False"
| "truthy (Some (JBool b)) = b"
| "truthy (Some (JNum n)) = (n \<noteq> 0)"
| "truthy (Some (JStr s)) = (s \<noteq> [])"
| "truthy (Some (JArr xs)) = True"
| "truthy (Some (JObj kvs)) = True"

fun truthy_str :: "string option \<Rightarrow> bool" where
  "truthy_str None = False"
| "truthy_str (Some s) = (s \<noteq> [])"

fun or_else :: "string option \<Rightarrow> string \<Rightarrow> string" where
  "or_else None d = d"
| "or_else (Some s) d = (if s = [] then d else s)"

text \<open>
  A string is the list of the bytes of its UTF-8 encoding. \<^verbatim>\<open>String.prototype.trim\<close>
  removes the white space and line terminators of ECMAScript from both ends: U+0009 to
  U+000D, U+0020, U+00A0, U+1680, U+2000 to U+200A, U+2028, U+2029, U+202F, U+205F, U+3000
  and U+FEFF, listed here by their encodings.
\<close>

fun starts_with :: "string \<Rightarrow> string \<Rightarrow> bool" where
  "starts_with s [] = True"
| "starts_with [] (p # ps) = False"
| "starts_with (c # cs) (p # ps) = (c = p \<and> starts_with cs ps)"

definition WhiteSpace :: "string list" where
  "WhiteSpace =
     [[CHR 0x09], [CHR 0x0A], [CHR 0x0B], [CHR 0x0C], [CHR 0x0D], [CHR 0x20],
      [CHR 0xC2, CHR 0xA0],
      [CHR 0xE1, CHR 0x9A, CHR 0x80],
      [CHR 0xE2, CHR 0x80, CHR 0x80], [CHR 0xE2, CHR 0x80, CHR 0x81],
      [CHR 0xE2, CHR 0x80, CHR 0x82], [CHR 0xE2, CHR 0x80, CHR 0x83],
      [CHR 0xE2, CHR 0x80, CHR 0x84], [CHR 0xE2, CHR 0x80, CHR 0x85],
      [CHR 0xE2, CHR 0x80, CHR 0x86], [CHR 0xE2, CHR 0x80, CHR 0x87],
      [CHR 0xE2, CHR 0x80, CHR 0x88], [CHR 0xE2, CHR 0x80, CHR 0x89],
      [CHR 0xE2, CHR 0x80, CHR 0x8A],
      [CHR 0xE2, CHR 0x80, CHR 0xA8], [CHR 0xE2, CHR 0x80, CHR 0xA9],
      [CHR 0xE2, CHR 0x80, CHR 0xAF],
      [CHR 0xE2, CHR 0x81, CHR 0x9F],
      [CHR 0xE3, CHR 0x80, CHR 0x80],
      [CHR 0xEF, CHR 0xBB, CHR 0xBF]]"

fun space_prefix :: "string list \<Rightarrow> string \<Rightarrow> nat" where
  "space_prefix [] s = 0"
| "space_prefix (p # ps) s = (if starts_with s p then length p else space_prefix ps s)"

fun strip_start :: "string list \<Rightarrow> string \<Rightarrow> string" where
  "strip_start ps [] = []"
| "strip_start ps (c # cs) =
     (case space_prefix ps (c # cs) of
        0 \<Rightarrow> c # cs
      | Suc k \<Rightarrow> strip_start ps (drop k cs))"

definition trim :: "string \<Rightarrow> string" where
  "trim s = rev (strip_start (map rev WhiteSpace) (rev (strip_start WhiteSpace s)))"

section \<open>Data of \<^verbatim>\<open>lib/paystack.ts\<close> and \<^verbatim>\<open>lib/email.ts\<close>\<close>

text \<open>
  \<^verbatim>\<open>PaystackWebhookEvent\<close>, with the fields the handlers read. \<^verbatim>\<open>JSON.parse\<close> is cast to
  the interface unchecked, so the objects the handlers dereference (\<^verbatim>\<open>data\<close>,
  \<^verbatim>\<open>data.customer\<close>) may be missing at run time, and \<^verbatim>\<open>gateway_response\<close> may be absent:
  these are options. \<^verbatim>\<open>authorization\<close> is optional in the interface itself.
\<close>

record Customer =
  first_name :: string
  last_name :: string
  email :: string

record Authorization =
  authorization_code :: string
  last4 :: string
  card_type :: string

record EventData =
  reference :: string
  status :: string
  amount :: rat
  gateway_response :: "string option"
  paid_at :: string
  customer :: "Customer option"
  authorization :: "Authorization option"

record PaystackWebhookEvent =
  event :: string
  data :: "EventData option"

text \<open>
  \<^verbatim>\<open>PaystackVerifyResponse\<close>: the body of the gateway's answer to
  \<^verbatim>\<open>GET /transaction/verify/:reference\<close>. \<open>tx_status\<close> is \<^verbatim>\<open>data.status\<close>.
\<close>

record VerifyData =
  tx_status :: string
  tx_reference :: string
  tx_amount :: rat

record PaystackVerifyResponse =
  resp_status :: bool
  resp_message :: "string option"
  resp_data :: "VerifyData option"

text \<open>
  The answers to \<^verbatim>\<open>POST /customer\<close>, \<^verbatim>\<open>GET /customer/:email\<close> and \<^verbatim>\<open>POST /subscription\<close>
  are untyped in the source; it reads \<^verbatim>\<open>status\<close>, \<^verbatim>\<open>message\<close> and one code inside
  \<^verbatim>\<open>data\<close> (\<^verbatim>\<open>customer_code\<close>, \<^verbatim>\<open>subscription_code\<close>), each of which may be missing.
\<close>

record CodeResponse =
  code_status :: bool
  code_message :: "string option"
  code_data :: "string option option"

text \<open>The result objects \<^verbatim>\<open>{ success, data?, error? }\<close> the library functions return.\<close>

record 'a api_result =
  success :: bool
  result :: "'a option"
  error :: "string option"

text \<open>
  \<^verbatim>\<open>SubscriptionData\<close>. The route passes on what it destructured from an untyped
  body, so each field is a JavaScript value.
\<close>

record SubscriptionData =
  sd_name :: "json option"
  sd_email :: "json option"
  sd_phone :: "json option"
  sd_bodyGoals :: "json option"
  sd_referralName :: "json option"

text \<open>\<^verbatim>\<open>PaystackInitializeResponse\<close>.\<close>

record InitializeData =
  authorization_url :: string
  access_code :: string
  init_reference :: string

record PaystackInitializeResponse =
  init_status :: bool
  init_message :: "string option"
  init_data :: "InitializeData option"

text \<open>The argument objects of the notification functions.\<close>

record PaymentConfirmationEmailData =
  pc_name :: string
  pc_email :: string
  pc_amount :: string
  pc_paymentDate :: string
  pc_subscriptionToken :: string
  pc_reference :: string
  pc_cardLast4 :: "string option"
  pc_cardType :: "string option"

record PaymentFailedEmailData =
  pf_name :: string
  pf_email :: string
  pf_amount :: string
  pf_reference :: string
  pf_reason :: string

record SubscriptionEmailData =
  se_name :: "json option"
  se_email :: "json option"
  se_phone :: "json option"
  se_bodyGoals :: "json option"
  se_referralName :: "json option"
  se_paymentLink :: "string option"

text \<open>
  The HTML templates are not reproduced: a message handed to \<^verbatim>\<open>plunk.emails.send\<close> is
  identified by the notification function that built it and the data it was built from
  (the admin notifications also by the value of \<^verbatim>\<open>process.env.ADMIN_EMAIL\<close>).
\<close>

datatype email_message =
    NewSubscriptionNotification "string option" SubscriptionEmailData
  | SubscriptionInitiatedEmail SubscriptionEmailData
  | PaymentConfirmationEmail PaymentConfirmationEmailData
  | PaymentReceivedNotification "string option" PaymentConfirmationEmailData
  | PaymentFailedEmail PaymentFailedEmailData
  | FormSubmissionEmail "string option" "(string \<times> string) list" string

text \<open>The calls that leave the process.\<close>

datatype action =
    GatewayVerify string
  | GatewayCreateCustomer json
  | GatewayFetchCustomer "json option"
  | GatewayCreateSubscription "string option" string
  | GatewayInitialize json
  | PlunkSend email_message

text \<open>
  What the JavaScript runtime provides and the repository does not define: the keyed hash
  of \<^verbatim>\<open>crypto\<close> (HMAC-SHA512 yields 64 bytes), \<^verbatim>\<open>JSON.parse\<close> followed by the cast to
  \<^verbatim>\<open>PaystackWebhookEvent\<close>, the framework's \<^verbatim>\<open>request.json()\<close>,
  \<^verbatim>\<open>Number.prototype.toString\<close>, the locale formatting of a date, the floating-point
  product \<^verbatim>\<open>parseFloat(text) * 100\<close> (\<open>None\<close> when it is not finite), and the clock and
  random source behind a fresh reference.
\<close>

record runtime =
  hmac_sha512 :: "string \<Rightarrow> string \<Rightarrow> 512 word"
  JSON_parse :: "string \<Rightarrow> PaystackWebhookEvent outcome"
  request_json :: "string \<Rightarrow> json outcome"
  Number_toString :: "rat \<Rightarrow> string"
  toLocaleDateString :: "string \<Rightarrow> string"
  parseFloat_times_100 :: "string \<Rightarrow> rat option"
  fresh_reference :: string
  now_iso :: string

text \<open>The environment variables and the answers of the two remote services.\<close>

record world =
  env_PAYSTACK_SECRET_KEY :: "string option"
  env_PAYSTACK_PLAN_CODE :: "string option"
  env_ADMIN_EMAIL :: "string option"
  env_SUBSCRIPTION_AMOUNT :: "string option"
  env_CALLBACK_URL :: "string option"
  gateway_verify :: "string \<Rightarrow> PaystackVerifyResponse outcome"
  gateway_create_customer :: "json \<Rightarrow> CodeResponse outcome"
  gateway_fetch_customer :: "json option \<Rightarrow> CodeResponse outcome"
  gateway_create_subscription :: "string option \<Rightarrow> string \<Rightarrow> CodeResponse outcome"
  gateway_initialize :: "json \<Rightarrow> PaystackInitializeResponse outcome"
  plunk_send :: "email_message \<Rightarrow> unit outcome"

text \<open>A computation: the calls it made, and how it ended.\<close>

type_synonym 'a effect = "action list \<times> 'a outcome"

definition return :: "'a \<Rightarrow> 'a effect" where
  "return x = ([], Returned x)"

definition throw :: "js_error \<Rightarrow> 'a effect" where
  "throw e = ([], Thrown e)"

definition call :: "action \<Rightarrow> 'a outcome \<Rightarrow> 'a effect" where
  "call a r = ([a], r)"

definition and_then :: "'a effect \<Rightarrow> ('a \<Rightarrow> 'b effect) \<Rightarrow> 'b effect" where
  "and_then m f =
     (case m of
        (tr, Thrown e) \<Rightarrow> (tr, Thrown e)
      | (tr, Returned x) \<Rightarrow> (case f x of (tr', r) \<Rightarrow> (tr @ tr', r)))"

definition try_catch :: "'a effect \<Rightarrow> (js_error \<Rightarrow> 'a effect) \<Rightarrow> 'a effect" where
  "try_catch m h =
     (case m of
        (tr, Returned x) \<Rightarrow> (tr, Returned x)
      | (tr, Thrown e) \<Rightarrow> (case h e of (tr', r) \<Rightarrow> (tr @ tr', r)))"

text \<open>Reading a property of a value that may be \<^verbatim>\<open>undefined\<close> throws a \<^verbatim>\<open>TypeError\<close>.\<close>

definition deref :: "'a option \<Rightarrow> 'a effect" where
  "deref x = (case x of None \<Rightarrow> throw None | Some v \<Rightarrow> return v)"

section \<open>\<^verbatim>\<open>lib/paystack.ts\<close>\<close>

definition PAYSTACK_SECRET_KEY :: "world \<Rightarrow> string" where
  "PAYSTACK_SECRET_KEY w = or_else (env_PAYSTACK_SECRET_KEY w) ''''"

text \<open>\<^verbatim>\<open>digest('hex')\<close>: two lower-case hexadecimal digits per byte, most significant first.\<close>

definition hex_digit :: "nat \<Rightarrow> char" where
  "hex_digit d = ''0123456789abcdef'' ! d"

fun hex_fixed :: "nat \<Rightarrow> nat \<Rightarrow> string" where
  "hex_fixed 0 v = []"
| "hex_fixed (Suc k) v = hex_fixed k (v div 16) @ [hex_digit (v mod 16)]"

definition digest_hex :: "512 word \<Rightarrow> string" where
  "digest_hex d = hex_fixed 128 (unat d)"

definition verifyPaystackWebhook :: "runtime \<Rightarrow> world \<Rightarrow> string \<Rightarrow> string \<Rightarrow> bool" where
  "verifyPaystackWebhook rt w payload signature =
     (let hash = digest_hex (hmac_sha512 rt (PAYSTACK_SECRET_KEY w) payload)
      in hash = signature)"

definition verifyPaystackTransaction :: "world \<Rightarrow> string \<Rightarrow> VerifyData api_result effect" where
  "verifyPaystackTransaction w ref =
     try_catch
       (and_then (call (GatewayVerify ref) (gateway_verify w ref)) (\<lambda>response.
          if resp_status response then
            and_then (deref (resp_data response)) (\<lambda>d.
              if tx_status d = ''success''
              then return \<lparr>success = True, result = Some d, error = None\<rparr>
              else return \<lparr>success = False, result = None,
                     error = Some (or_else (resp_message response) ''Payment verification failed'')\<rparr>)
          else return \<lparr>success = False, result = None,
                 error = Some (or_else (resp_message response) ''Payment verification failed'')\<rparr>))
       (\<lambda>e. return \<lparr>success = False, result = None,
                 error = Some (or_else e ''Failed to verify payment'')\<rparr>)"

text \<open>
  \<^verbatim>\<open>Number.prototype.toFixed\<close> as ECMAScript defines it: the sign, then the integer \<open>n\<close>
  nearest to \<open>x * 10^f\<close> (the larger of two), written in decimal, padded with zeros to
  \<open>f + 1\<close> digits, with a point before the last \<open>f\<close>; from \<open>10^21\<close> on, the number's
  ordinary string. The division and the rounding are exact here; binary floating point
  gives the same digits for every whole amount below \<open>2^52\<close>, and may give other
  digits for an amount that is not whole or not below \<open>2^52\<close>.
\<close>

definition digit_char :: "nat \<Rightarrow> char" where
  "digit_char d = ''0123456789'' ! d"

fun decimal :: "nat \<Rightarrow> string" where
  "decimal n = (if n < 10 then [digit_char n] else decimal (n div 10) @ [digit_char (n mod 10)])"

declare decimal.simps [simp del]

definition toFixed :: "(rat \<Rightarrow> string) \<Rightarrow> rat \<Rightarrow> nat \<Rightarrow> string" where
  "toFixed ToString x0 f =
     (let s = (if x0 < 0 then ''-'' else '''');
          x = \<bar>x0\<bar>
      in if 10 ^ 21 \<le> x then s @ ToString x
         else
           let n = nat \<lfloor>x * 10 ^ f + 1 / 2\<rfloor>;
               m = decimal n;
               m = (if f \<noteq> 0 \<and> length m \<le> f
                    then replicate (f + 1 - length m) (CHR ''0'') @ m else m);
               k = length m
           in if f \<noteq> 0 then s @ take (k - f) m @ ''.'' @ drop (k - f) m else s @ m)"

definition formatPaystackAmount :: "runtime \<Rightarrow> rat \<Rightarrow> string" where
  "formatPaystackAmount rt amountInKobo =
     ''R'' @ toFixed (Number_toString rt) (amountInKobo / 100) 2"

definition createPaystackSubscription ::
  "world \<Rightarrow> string option \<Rightarrow> string \<Rightarrow> string option api_result effect" where
  "createPaystackSubscription w customerCode planCode =
     try_catch
       (and_then (call (GatewayCreateSubscription customerCode planCode)
                       (gateway_create_subscription w customerCode planCode)) (\<lambda>response.
          if code_status response
          then return \<lparr>success = True, result = code_data response, error = None\<rparr>
          else return \<lparr>success = False, result = None,
                 error = Some (or_else (code_message response) ''Failed to create subscription'')\<rparr>))
       (\<lambda>e. return \<lparr>success = False, result = None,
                 error = Some (or_else e ''Failed to create subscription'')\<rparr>)"

definition enableRecurringSubscription ::
  "world \<Rightarrow> string \<Rightarrow> string \<Rightarrow> string api_result effect" where
  "enableRecurringSubscription w authorizationCode email_addr =
     try_catch
       (and_then (call (GatewayCreateCustomer (JObj [(''email'', JStr email_addr)]))
                       (gateway_create_customer w (JObj [(''email'', JStr email_addr)])))
          (\<lambda>customerResponse.
          and_then (deref (code_data customerResponse)) (\<lambda>customerCode.
            let fallback = return \<lparr>success = True, result = Some authorizationCode, error = None\<rparr>
            in if truthy_str (env_PAYSTACK_PLAN_CODE w) then
                 and_then (createPaystackSubscription w customerCode
                             (or_else (env_PAYSTACK_PLAN_CODE w) [])) (\<lambda>subscriptionResult.
                   if success subscriptionResult
                   then return \<lparr>success = True,
                                result = (case result subscriptionResult of
                                             None \<Rightarrow> None | Some c \<Rightarrow> c),
                                error = None\<rparr>
                   else fallback)
               else fallback)))
       (\<lambda>e. return \<lparr>success = False, result = None,
                 error = Some (or_else e ''Failed to enable recurring subscription'')\<rparr>)"

text \<open>
  An object literal sent as a request body: a property whose value is \<^verbatim>\<open>undefined\<close> is
  left out when the body is serialised.
\<close>

definition object_literal :: "(string \<times> json option) list \<Rightarrow> json" where
  "object_literal kvs =
     JObj (concat (map (\<lambda>(k, v). case v of None \<Rightarrow> [] | Some j \<Rightarrow> [(k, j)]) kvs))"

definition or_json :: "json option \<Rightarrow> json \<Rightarrow> json" where
  "or_json v d = (case v of None \<Rightarrow> d | Some j \<Rightarrow> if truthy v then j else d)"

text \<open>
  \<^verbatim>\<open>const [firstName, ...lastNameParts] = data.name.split(' ')\<close> and the join of the
  rest: the text before the first space and the text after it. A name that is not a
  string has no \<^verbatim>\<open>split\<close>, and the call throws.
\<close>

definition split_name :: "json option \<Rightarrow> (string \<times> string) effect" where
  "split_name v =
     (case v of
        Some (JStr s) \<Rightarrow>
          return (takeWhile (\<lambda>c. c \<noteq> CHR '' '') s, drop 1 (dropWhile (\<lambda>c. c \<noteq> CHR '' '') s))
      | _ \<Rightarrow> throw None)"

text \<open>\<^verbatim>\<open>String.prototype.includes\<close>.\<close>

fun includes_str :: "string \<Rightarrow> string \<Rightarrow> bool" where
  "includes_str [] sub = (sub = [])"
| "includes_str (c # cs) sub = (starts_with (c # cs) sub \<or> includes_str cs sub)"

definition createOrGetPaystackCustomer ::
  "runtime \<Rightarrow> world \<Rightarrow> SubscriptionData \<Rightarrow> string api_result effect" where
  "createOrGetPaystackCustomer rt w d =
     try_catch
       (and_then (split_name (sd_name d)) (\<lambda>(firstName, lastName).
          let body = object_literal
                [(''email'', sd_email d),
                 (''first_name'', Some (JStr firstName)),
                 (''last_name'', Some (JStr lastName)),
                 (''phone'', sd_phone d),
                 (''metadata'', Some (object_literal
                    [(''body_goals'', Some (or_json (sd_bodyGoals d) (JStr []))),
                     (''referral_name'', Some (or_json (sd_referralName d) (JStr []))),
                     (''created_at'', Some (JStr (now_iso rt)))]))]
          in and_then (call (GatewayCreateCustomer body) (gateway_create_customer w body))
               (\<lambda>response.
                  if code_status response then
                    and_then (deref (code_data response)) (\<lambda>customer_code.
                      return \<lparr>success = True, result = customer_code, error = None\<rparr>)
                  else return \<lparr>success = False, result = None,
                         error = Some (or_else (code_message response) ''Failed to create customer'')\<rparr>)))
       (\<lambda>e.
          and_then
            (if (case e of None \<Rightarrow> False | Some m \<Rightarrow> includes_str m ''already exists'') then
               try_catch
                 (and_then (call (GatewayFetchCustomer (sd_email d))
                                 (gateway_fetch_customer w (sd_email d))) (\<lambda>fetchResponse.
                    if code_status fetchResponse then
                      and_then (deref (code_data fetchResponse)) (\<lambda>customer_code.
                        return (Some \<lparr>success = True, result = customer_code, error = None\<rparr>))
                    else return None))
                 (\<lambda>fetchError. return None)
             else return None)
            (\<lambda>found.
               case found of
                 Some r \<Rightarrow> return r
               | None \<Rightarrow> return \<lparr>success = False, result = None,
                           error = Some (or_else e ''Failed to create customer'')\<rparr>))"

definition initializePaystackSubscription ::
  "runtime \<Rightarrow> world \<Rightarrow> SubscriptionData \<Rightarrow> InitializeData api_result effect" where
  "initializePaystackSubscription rt w d =
     try_catch
       (and_then (createOrGetPaystackCustomer rt w d) (\<lambda>customerResult.
          if \<not> success customerResult \<or> \<not> truthy_str (result customerResult) then
            return \<lparr>success = False, result = None,
                    error = Some (or_else (error customerResult) ''Failed to create customer'')\<rparr>
          else
            let amount_minor =
                  (case parseFloat_times_100 rt (or_else (env_SUBSCRIPTION_AMOUNT w) ''399'') of
                     None \<Rightarrow> JNull | Some a \<Rightarrow> JNum a);
                callbackUrl = or_else (env_CALLBACK_URL w) ''http://localhost:3000/payment-success'';
                ref = fresh_reference rt
            in and_then (split_name (sd_name d)) (\<lambda>(firstName, lastName).
                 let planCode = env_PAYSTACK_PLAN_CODE w;
                     field = (\<lambda>display variable v.
                        object_literal [(''display_name'', Some (JStr display)),
                                        (''variable_name'', Some (JStr variable)),
                                        (''value'', v)]);
                     body = object_literal
                       ([(''email'', sd_email d),
                         (''customer'', map_option JStr (result customerResult)),
                         (''amount'', Some amount_minor),
                         (''reference'', Some (JStr ref)),
                         (''callback_url'', Some (JStr callbackUrl)),
                         (''currency'', Some (JStr ''ZAR'')),
                         (''metadata'', Some (object_literal
                            [(''custom_fields'', Some (JArr
                               (concat (map (\<lambda>(display, variable, v, shown).
                                         if shown then [field display variable v] else [])
                                  [(''Full Name'', ''full_name'', sd_name d, True),
                                   (''Phone'', ''phone'', sd_phone d, True),
                                   (''Body Goals'', ''body_goals'', sd_bodyGoals d,
                                      truthy (sd_bodyGoals d)),
                                   (''Referred By'', ''referral_name'', sd_referralName d,
                                      truthy (sd_referralName d))])))),
                             (''first_name'', Some (JStr firstName)),
                             (''last_name'', Some (JStr lastName)),
                             (''phone'', sd_phone d),
                             (''body_goals'', Some (or_json (sd_bodyGoals d) (JStr []))),
                             (''referral_name'', Some (or_json (sd_referralName d) (JStr []))),
                             (''subscription_type'', Some (JStr ''recurring''))])),
                         (''channels'', Some (JArr [JStr ''card'', JStr ''bank'', JStr ''ussd'',
                                                    JStr ''mobile_money'']))]
                        @ (if truthy_str planCode then [(''plan'', map_option JStr planCode)] else []))
                 in and_then (call (GatewayInitialize body) (gateway_initialize w body)) (\<lambda>response.
                      if init_status response then
                        and_then (deref (init_data response)) (\<lambda>idata.
                          return \<lparr>success = True, result = Some idata, error = None\<rparr>)
                      else return \<lparr>success = False, result = None,
                             error = Some (or_else (init_message response)
                                             ''Failed to initialize payment'')\<rparr>))))
       (\<lambda>e. return \<lparr>success = False, result = None,
                 error = Some (or_else e ''Failed to initialize payment'')\<rparr>)"

section \<open>\<^verbatim>\<open>lib/email.ts\<close>\<close>

text \<open>
  Every notification function has the same shape: build the message, await
  \<^verbatim>\<open>plunk.emails.send\<close>, return \<^verbatim>\<open>true\<close>; on any exception log and return \<^verbatim>\<open>false\<close>.
\<close>

definition send_via_plunk :: "world \<Rightarrow> email_message \<Rightarrow> bool effect" where
  "send_via_plunk w msg =
     try_catch
       (and_then (call (PlunkSend msg) (plunk_send w msg)) (\<lambda>_. return True))
       (\<lambda>e. return False)"

definition sendNewSubscriptionNotification :: "world \<Rightarrow> SubscriptionEmailData \<Rightarrow> bool effect" where
  "sendNewSubscriptionNotification w d =
     send_via_plunk w (NewSubscriptionNotification (env_ADMIN_EMAIL w) d)"

definition sendSubscriptionInitiatedEmail :: "world \<Rightarrow> SubscriptionEmailData \<Rightarrow> bool effect" where
  "sendSubscriptionInitiatedEmail w d = send_via_plunk w (SubscriptionInitiatedEmail d)"

definition sendPaymentConfirmationEmail ::
  "world \<Rightarrow> PaymentConfirmationEmailData \<Rightarrow> bool effect" where
  "sendPaymentConfirmationEmail w d = send_via_plunk w (PaymentConfirmationEmail d)"

definition sendPaymentReceivedNotification ::
  "world \<Rightarrow> PaymentConfirmationEmailData \<Rightarrow> bool effect" where
  "sendPaymentReceivedNotification w d =
     send_via_plunk w (PaymentReceivedNotification (env_ADMIN_EMAIL w) d)"

definition sendPaymentFailedEmail :: "world \<Rightarrow> PaymentFailedEmailData \<Rightarrow> bool effect" where
  "sendPaymentFailedEmail w d = send_via_plunk w (PaymentFailedEmail d)"

text \<open>The form type defaults to \<^verbatim>\<open>'Contact Form'\<close> when the argument is left out.\<close>

definition sendFormSubmissionEmail ::
  "world \<Rightarrow> (string \<times> string) list \<Rightarrow> string option \<Rightarrow> bool effect" where
  "sendFormSubmissionEmail w formData formType =
     send_via_plunk w
       (FormSubmissionEmail (env_ADMIN_EMAIL w) formData
          (case formType of None \<Rightarrow> ''Contact Form'' | Some t \<Rightarrow> t))"

section \<open>\<^verbatim>\<open>POST /api/webhook/paystack\<close>\<close>

text \<open>
  \<^verbatim>\<open>request.text()\<close> decodes the bytes of the body as UTF-8: a leading byte order mark
  is dropped, a well-formed sequence is kept, and every ill-formed part is replaced by
  U+FFFD. The decoder reads a lead byte, then the continuation bytes it needs within the
  bounds the lead byte sets; a byte outside the bounds ends the sequence with a
  replacement and is read again as a lead byte. The result is given in UTF-8, which is
  also what \<^verbatim>\<open>update(payload)\<close> feeds to the keyed hash.
\<close>

definition replacement_character :: string where
  "replacement_character = [CHR 0xEF, CHR 0xBF, CHR 0xBD]"

definition byte_order_mark :: string where
  "byte_order_mark = [CHR 0xEF, CHR 0xBB, CHR 0xBF]"

fun utf8_decode :: "nat \<Rightarrow> nat \<Rightarrow> nat \<Rightarrow> string \<Rightarrow> string \<Rightarrow> string" where
  "utf8_decode needed lower upper seen [] =
     (if needed = 0 then [] else replacement_character)"
| "utf8_decode needed lower upper seen (b # bs) =
     (if needed = 0 then
        (if (of_char b :: nat) \<le> 0x7F then b # utf8_decode 0 0x80 0xBF [] bs
         else if 0xC2 \<le> (of_char b :: nat) \<and> (of_char b :: nat) \<le> 0xDF then
           utf8_decode 1 0x80 0xBF [b] bs
         else if 0xE0 \<le> (of_char b :: nat) \<and> (of_char b :: nat) \<le> 0xEF then
           utf8_decode 2 (if (of_char b :: nat) = 0xE0 then 0xA0 else 0x80)
                         (if (of_char b :: nat) = 0xED then 0x9F else 0xBF) [b] bs
         else if 0xF0 \<le> (of_char b :: nat) \<and> (of_char b :: nat) \<le> 0xF4 then
           utf8_decode 3 (if (of_char b :: nat) = 0xF0 then 0x90 else 0x80)
                         (if (of_char b :: nat) = 0xF4 then 0x8F else 0xBF) [b] bs
         else replacement_character @ utf8_decode 0 0x80 0xBF [] bs)
      else if (of_char b :: nat) < lower \<or> upper < (of_char b :: nat) then
        replacement_character @ utf8_decode 0 0x80 0xBF [] (b # bs)
      else if needed = 1 then seen @ [b] @ utf8_decode 0 0x80 0xBF [] bs
      else utf8_decode (needed - 1) 0x80 0xBF (seen @ [b]) bs)"

definition request_text :: "string \<Rightarrow> string" where
  "request_text bytes =
     utf8_decode 0 0x80 0xBF []
       (if take 3 bytes = byte_order_mark then drop 3 bytes else bytes)"

text \<open>
  What the handler reads off a request: \<open>raw_body\<close> is the text that
  \<^verbatim>\<open>await request.text()\<close> returns (\<open>request_text\<close> of the bytes received), which the
  source calls the raw body, and \<open>x_paystack_signature\<close> is the value of the header.
\<close>

record webhook_request =
  raw_body :: string
  x_paystack_signature :: "string option"

record response =
  http_status :: nat
  json_body :: json

text \<open>\<^verbatim>\<open>NextResponse.json(body)\<close> answers 200 unless a status is given.\<close>

definition NextResponse_json :: "json \<Rightarrow> nat option \<Rightarrow> response" where
  "NextResponse_json b st =
     \<lparr>http_status = (case st of None \<Rightarrow> 200 | Some s \<Rightarrow> s), json_body = b\<rparr>"

text \<open>
  The body of the \<^verbatim>\<open>try\<close> block of \<^verbatim>\<open>handlePaymentSuccess\<close>. The two notification
  functions are started one after the other inside \<^verbatim>\<open>Promise.all\<close> and not awaited;
  neither can reject, so their results are dropped.
\<close>

definition handlePaymentSuccess_try :: "runtime \<Rightarrow> world \<Rightarrow> PaystackWebhookEvent \<Rightarrow> unit effect" where
  "handlePaymentSuccess_try rt w ev =
     and_then (deref (data ev)) (\<lambda>d.
     and_then (verifyPaystackTransaction w (reference d)) (\<lambda>verification.
       if \<not> success verification
          \<or> map_option tx_status (result verification) \<noteq> Some ''success''
       then return ()
       else
         and_then (deref (customer d)) (\<lambda>c.
           let customerEmail = email c;
               customerName = trim (first_name c @ '' '' @ last_name c);
               code = (case authorization d of None \<Rightarrow> None
                       | Some a \<Rightarrow> Some (authorization_code a))
           in and_then
                (if truthy_str code
                 then and_then (enableRecurringSubscription w (or_else code []) customerEmail)
                        (\<lambda>subscriptionResult. return ())
                 else return ())
                (\<lambda>_.
                 let emailData =
                       \<lparr>pc_name = customerName,
                        pc_email = customerEmail,
                        pc_amount = formatPaystackAmount rt (amount d),
                        pc_paymentDate = toLocaleDateString rt (paid_at d),
                        pc_subscriptionToken = or_else code (reference d),
                        pc_reference = reference d,
                        pc_cardLast4 = map_option last4 (authorization d),
                        pc_cardType = map_option card_type (authorization d)\<rparr>
                 in and_then (sendPaymentConfirmationEmail w emailData) (\<lambda>_.
                    and_then (sendPaymentReceivedNotification w emailData) (\<lambda>_.
                      return ()))))))"

definition handlePaymentSuccess :: "runtime \<Rightarrow> world \<Rightarrow> PaystackWebhookEvent \<Rightarrow> unit effect" where
  "handlePaymentSuccess rt w ev = try_catch (handlePaymentSuccess_try rt w ev) (\<lambda>e. return ())"

definition handlePaymentFailed_try :: "runtime \<Rightarrow> world \<Rightarrow> PaystackWebhookEvent \<Rightarrow> unit effect" where
  "handlePaymentFailed_try rt w ev =
     and_then (deref (data ev)) (\<lambda>d.
     and_then (deref (customer d)) (\<lambda>c.
       let customerEmail = email c;
           customerName = trim (first_name c @ '' '' @ last_name c);
           emailData =
             \<lparr>pf_name = customerName,
              pf_email = customerEmail,
              pf_amount = formatPaystackAmount rt (amount d),
              pf_reference = reference d,
              pf_reason = or_else (gateway_response d) ''Payment could not be processed''\<rparr>
       in and_then (sendPaymentFailedEmail w emailData) (\<lambda>_. return ())))"

definition handlePaymentFailed :: "runtime \<Rightarrow> world \<Rightarrow> PaystackWebhookEvent \<Rightarrow> unit effect" where
  "handlePaymentFailed rt w ev = try_catch (handlePaymentFailed_try rt w ev) (\<lambda>e. return ())"

text \<open>
  What \<^verbatim>\<open>POST\<close> does once the signature has been accepted: parse, read the fields it
  logs (which throws when \<^verbatim>\<open>data\<close> or \<^verbatim>\<open>data.customer\<close> is missing), dispatch on the
  event name.
\<close>

definition dispatch :: "runtime \<Rightarrow> world \<Rightarrow> string \<Rightarrow> unit effect" where
  "dispatch rt w body =
     and_then ([], JSON_parse rt body) (\<lambda>ev.
     and_then (deref (data ev)) (\<lambda>d.
     and_then (deref (customer d)) (\<lambda>c.
       if event ev = ''charge.success'' then handlePaymentSuccess rt w ev
       else if event ev = ''charge.failed'' then handlePaymentFailed rt w ev
       else if event ev = ''subscription.create'' then return ()
       else if event ev = ''subscription.disable'' then return ()
       else return ())))"

definition POST_webhook :: "runtime \<Rightarrow> world \<Rightarrow> webhook_request \<Rightarrow> response effect" where
  "POST_webhook rt w request =
     try_catch
       (let body = raw_body request;
            signature = x_paystack_signature request
        in if \<not> truthy_str signature then
             return (NextResponse_json (JObj [(''error'', JStr ''No signature provided'')]) (Some 400))
           else if \<not> verifyPaystackWebhook rt w body (or_else signature []) then
             return (NextResponse_json (JObj [(''error'', JStr ''Invalid signature'')]) (Some 400))
           else
             and_then (dispatch rt w body) (\<lambda>_.
               return (NextResponse_json (JObj [(''received'', JBool True)]) None)))
       (\<lambda>e. return (NextResponse_json
                      (JObj [(''received'', JBool True), (''error'', JStr ''Processing error'')])
                      None))"

section \<open>\<^verbatim>\<open>POST /api/subscribe\<close>\<close>

record subscribe_request =
  sub_body :: string

text \<open>
  Reading a property while destructuring: \<^verbatim>\<open>null\<close> cannot be destructured, an object
  yields the property or \<^verbatim>\<open>undefined\<close>, and no other parsed value has a property of
  the names read here.
\<close>

definition property :: "json \<Rightarrow> string \<Rightarrow> json option effect" where
  "property b k =
     (case b of
        JNull \<Rightarrow> throw None
      | JObj kvs \<Rightarrow> return (map_of kvs k)
      | _ \<Rightarrow> return None)"

definition POST_subscribe :: "runtime \<Rightarrow> world \<Rightarrow> subscribe_request \<Rightarrow> response effect" where
  "POST_subscribe rt w request =
     try_catch
       (and_then ([], request_json rt (sub_body request)) (\<lambda>body.
        and_then (property body ''name'') (\<lambda>name.
        and_then (property body ''email'') (\<lambda>email_addr.
        and_then (property body ''phone'') (\<lambda>phone.
        and_then (property body ''bodyGoals'') (\<lambda>bodyGoals.
        and_then (property body ''referralName'') (\<lambda>referralName.
          if \<not> truthy name \<or> \<not> truthy email_addr \<or> \<not> truthy phone then
            return (NextResponse_json (JObj [(''error'', JStr ''Missing required fields'')])
                      (Some 400))
          else
            and_then (initializePaystackSubscription rt w
                        \<lparr>sd_name = name, sd_email = email_addr, sd_phone = phone,
                         sd_bodyGoals = bodyGoals, sd_referralName = referralName\<rparr>)
              (\<lambda>paystackResult.
                 if \<not> success paystackResult then
                   return (NextResponse_json
                             (JObj [(''error'', JStr (or_else (error paystackResult)
                                                       ''Failed to initialize payment''))])
                             (Some 500))
                 else
                   let emailData =
                         \<lparr>se_name = name, se_email = email_addr, se_phone = phone,
                          se_bodyGoals = bodyGoals, se_referralName = referralName,
                          se_paymentLink = map_option authorization_url (result paystackResult)\<rparr>
                   in and_then (sendSubscriptionInitiatedEmail w emailData) (\<lambda>_.
                      and_then (sendNewSubscriptionNotification w emailData) (\<lambda>_.
                        return (NextResponse_json
                                  (object_literal
                                     [(''redirectUrl'',
                                         map_option (JStr \<circ> authorization_url) (result paystackResult)),
                                      (''reference'',
                                         map_option (JStr \<circ> init_reference) (result paystackResult))])
                                  None)))))))))))
       (\<lambda>e. return (NextResponse_json (JObj [(''error'', JStr ''Failed to initiate subscription'')])
                      (Some 500)))"

section \<open>Requests and a concrete environment\<close>

text \<open>A webhook request as the gateway sends it: the body and the digest of that body.\<close>

definition expected_signature :: "runtime \<Rightarrow> world \<Rightarrow> string \<Rightarrow> string" where
  "expected_signature rt w body = digest_hex (hmac_sha512 rt (PAYSTACK_SECRET_KEY w) body)"

definition signed_request :: "runtime \<Rightarrow> world \<Rightarrow> string \<Rightarrow> webhook_request" where
  "signed_request rt w body =
     \<lparr>raw_body = body, x_paystack_signature = Some (expected_signature rt w body)\<rparr>"





text \<open>Whether the mail provider accepts a message.\<close>

definition delivered :: "world \<Rightarrow> email_message \<Rightarrow> bool" where
  "delivered w m = (case plunk_send w m of Returned u \<Rightarrow> True | Thrown e \<Rightarrow> False)"


fun is_email :: "action \<Rightarrow> bool" where
  "is_email (PlunkSend m) = True"
| "is_email _ = False"

text \<open>
  The payload has the shape the handlers rely on when it parses and carries \<^verbatim>\<open>data\<close>
  and \<^verbatim>\<open>data.customer\<close>.
\<close>

definition payload_readable :: "runtime \<Rightarrow> string \<Rightarrow> bool" where
  "payload_readable rt body =
     (case JSON_parse rt body of
        Thrown e \<Rightarrow> False
      | Returned ev \<Rightarrow> (case data ev of None \<Rightarrow> False | Some d \<Rightarrow> customer d \<noteq> None))"

text \<open>
  The field of a request body: what destructuring yields for a body other than
  \<^verbatim>\<open>null\<close>.
\<close>

definition field_of :: "json \<Rightarrow> string \<Rightarrow> json option" where
  "field_of b k = (case b of JObj kvs \<Rightarrow> map_of kvs k | _ \<Rightarrow> None)"

definition missing_fields_response :: response where
  "missing_fields_response =
     \<lparr>http_status = 400, json_body = JObj [(''error'', JStr ''Missing required fields'')]\<rparr>"

text \<open>
  A concrete environment for examples. Bodies are written with a backquote for the
  double quote. The keyed hash is a stand-in with the right type, which counts the bytes
  of the key and of the message: under the key \<^verbatim>\<open>sk_test_0000\<close> it gives 0x7e4 for
  \<^verbatim>\<open>not json\<close>, 0x202 for \<^verbatim>\<open>{}\<close> and 0x4f3 for \<^verbatim>\<open>{}\<close> after a byte order mark.
\<close>

definition json_text :: "string \<Rightarrow> string" where
  "json_text s = map (\<lambda>c. if c = CHR ''`'' then CHR 0x22 else c) s"

definition charge_success_body :: string where
  "charge_success_body = json_text
     ''{`event`:`charge.success`,`data`:{`reference`:`SUB_1`,`status`:`success`,`amount`:3990000,`gateway_response`:`Successful`,`paid_at`:`2024-05-01T10:00:00.000Z`,`customer`:{`first_name`:`Thandi`,`last_name`:`Nkosi`,`email`:`thandi@example.com`},`authorization`:{`authorization_code`:`AUTH_abc`,`last4`:`4081`,`card_type`:`visa`}}}''"

definition charge_success_event :: PaystackWebhookEvent where
  "charge_success_event =
     \<lparr>event = ''charge.success'',
      data = Some \<lparr>reference = ''SUB_1'', status = ''success'', amount = 3990000,
                   gateway_response = Some ''Successful'',
                   paid_at = ''2024-05-01T10:00:00.000Z'',
                   customer = Some \<lparr>first_name = ''Thandi'', last_name = ''Nkosi'',
                                     email = ''thandi@example.com''\<rparr>,
                   authorization = Some \<lparr>authorization_code = ''AUTH_abc'', last4 = ''4081'',
                                          card_type = ''visa''\<rparr>\<rparr>\<rparr>"

definition charge_failed_body :: string where
  "charge_failed_body = json_text
     ''{`event`:`charge.failed`,`data`:{`reference`:`SUB_2`,`status`:`failed`,`amount`:3990000,`gateway_response`:``,`paid_at`:``,`customer`:{`first_name`:`Thandi`,`last_name`:`Nkosi`,`email`:`thandi@example.com`}}}''"

definition charge_failed_event :: PaystackWebhookEvent where
  "charge_failed_event =
     \<lparr>event = ''charge.failed'',
      data = Some \<lparr>reference = ''SUB_2'', status = ''failed'', amount = 3990000,
                   gateway_response = Some [], paid_at = [],
                   customer = Some \<lparr>first_name = ''Thandi'', last_name = ''Nkosi'',
                                     email = ''thandi@example.com''\<rparr>,
                   authorization = None\<rparr>\<rparr>"

definition charge_failed_no_customer_body :: string where
  "charge_failed_no_customer_body = json_text
     ''{`event`:`charge.failed`,`data`:{`reference`:`SUB_3`,`status`:`failed`,`amount`:3990000,`gateway_response`:`Declined`,`paid_at`:``}}''"

definition charge_failed_no_customer_event :: PaystackWebhookEvent where
  "charge_failed_no_customer_event =
     \<lparr>event = ''charge.failed'',
      data = Some \<lparr>reference = ''SUB_3'', status = ''failed'', amount = 3990000,
                   gateway_response = Some ''Declined'', paid_at = [],
                   customer = None, authorization = None\<rparr>\<rparr>"




definition no_phone_body :: string where
  "no_phone_body = json_text ''{`name`:`Thandi Nkosi`,`email`:`thandi@example.com`}''"

definition empty_phone_body :: string where
  "empty_phone_body = json_text ''{`name`:`Thandi Nkosi`,`email`:`thandi@example.com`,`phone`:``}''"

definition example_runtime :: runtime where
  "example_runtime =
     \<lparr>hmac_sha512 = (\<lambda>key message. of_nat (length key + 251 * length message)),
      JSON_parse = (\<lambda>text.
         if text = charge_success_body then Returned charge_success_event
         else if text = charge_failed_body then Returned charge_failed_event
         else if text = charge_failed_no_customer_body then Returned charge_failed_no_customer_event
         else Thrown None),
      request_json = (\<lambda>text.
         if text = ''null'' then Returned JNull
         else if text = no_phone_body then
           Returned (JObj [(''name'', JStr ''Thandi Nkosi''), (''email'', JStr ''thandi@example.com'')])
         else if text = empty_phone_body then
           Returned (JObj [(''name'', JStr ''Thandi Nkosi''), (''email'', JStr ''thandi@example.com''),
                           (''phone'', JStr [])])
         else Thrown None),
      Number_toString = (\<lambda>x. ''1e+21''),
      toLocaleDateString = (\<lambda>text. ''01 May 2024''),
      parseFloat_times_100 = (\<lambda>text. if text = ''399'' then Some 39900 else None),
      fresh_reference = ''SUB_1714557600000_k3x9q'',
      now_iso = ''2024-05-01T10:00:00.000Z''\<rparr>"

definition example_subscription_data :: SubscriptionEmailData where
  "example_subscription_data =
     \<lparr>se_name = Some (JStr ''Thandi Nkosi''), se_email = Some (JStr ''thandi@example.com''),
      se_phone = Some (JStr ''0820000000''), se_bodyGoals = None, se_referralName = None,
      se_paymentLink = Some ''https://checkout.paystack.com/0peioxfhpn''\<rparr>"

definition example_payment_data :: PaymentConfirmationEmailData where
  "example_payment_data =
     \<lparr>pc_name = ''Thandi Nkosi'', pc_email = ''thandi@example.com'', pc_amount = ''R39900.00'',
      pc_paymentDate = ''01 May 2024'', pc_subscriptionToken = ''AUTH_abc'',
      pc_reference = ''SUB_1'', pc_cardLast4 = Some ''4081'', pc_cardType = Some ''visa''\<rparr>"

definition example_failed_data :: PaymentFailedEmailData where
  "example_failed_data =
     \<lparr>pf_name = ''Thandi Nkosi'', pf_email = ''thandi@example.com'', pf_amount = ''R39900.00'',
      pf_reference = ''SUB_2'', pf_reason = ''Payment could not be processed''\<rparr>"

text \<open>
  The gateway confirms \<^verbatim>\<open>SUB_1\<close> and reports every other transaction as abandoned;
  every other gateway call fails; the mail provider refuses every message.
\<close>

definition example_world :: world where
  "example_world =
     \<lparr>env_PAYSTACK_SECRET_KEY = Some ''sk_test_0000'',
      env_PAYSTACK_PLAN_CODE = None,
      env_ADMIN_EMAIL = None,
      env_SUBSCRIPTION_AMOUNT = None,
      env_CALLBACK_URL = None,
      gateway_verify = (\<lambda>ref. Returned
         \<lparr>resp_status = True, resp_message = Some ''Verification successful'',
          resp_data = Some \<lparr>tx_status = (if ref = ''SUB_1'' then ''success'' else ''abandoned''),
                            tx_reference = ref, tx_amount = 3990000\<rparr>\<rparr>),
      gateway_create_customer = (\<lambda>body. Thrown None),
      gateway_fetch_customer = (\<lambda>email_addr. Thrown None),
      gateway_create_subscription = (\<lambda>customerCode planCode. Thrown None),
      gateway_initialize = (\<lambda>body. Thrown None),
      plunk_send = (\<lambda>message. Thrown None)\<rparr>"

section \<open>Laws of the effect combinators\<close>

lemma and_then_Thrown: "and_then (tr, Thrown e) f = (tr, Thrown e)"
  by (simp add: and_then_def)

lemma and_then_Returned: "and_then (tr, Returned x) f = (tr @ fst (f x), snd (f x))"
  by (simp add: and_then_def split: prod.splits)

lemma and_then_return: "and_then (return x) f = f x"
  by (simp add: and_then_def return_def split: prod.splits)

lemma try_catch_Returned: "try_catch (tr, Returned x) h = (tr, Returned x)"
  by (simp add: try_catch_def)

lemma try_catch_Thrown: "try_catch (tr, Thrown e) h = (tr @ fst (h e), snd (h e))"
  by (simp add: try_catch_def split: prod.splits)

lemma fst_and_then:
  "fst (and_then m f) = (case snd m of Thrown e \<Rightarrow> fst m | Returned x \<Rightarrow> fst m @ fst (f x))"
  by (cases m) (simp add: and_then_def split: outcome.splits prod.splits)

lemma snd_and_then:
  "snd (and_then m f) = (case snd m of Thrown e \<Rightarrow> Thrown e | Returned x \<Rightarrow> snd (f x))"
  by (cases m) (simp add: and_then_def split: outcome.splits prod.splits)

lemma fst_try_catch:
  "fst (try_catch m h) = (case snd m of Returned x \<Rightarrow> fst m | Thrown e \<Rightarrow> fst m @ fst (h e))"
  by (cases m) (simp add: try_catch_def split: outcome.splits prod.splits)

lemma snd_try_catch:
  "snd (try_catch m h) = (case snd m of Returned x \<Rightarrow> Returned x | Thrown e \<Rightarrow> snd (h e))"
  by (cases m) (simp add: try_catch_def split: outcome.splits prod.splits)

lemma fst_return: "fst (return x) = []"
  by (simp add: return_def)

lemma snd_return: "snd (return x) = Returned x"
  by (simp add: return_def)

lemma fst_throw: "fst (throw e) = []"
  by (simp add: throw_def)

lemma snd_throw: "snd (throw e) = Thrown e"
  by (simp add: throw_def)

lemma fst_call: "fst (call a r) = [a]"
  by (simp add: call_def)

lemma snd_call: "snd (call a r) = r"
  by (simp add: call_def)

lemmas effect_simps =
  fst_and_then snd_and_then fst_try_catch snd_try_catch
  fst_return snd_return fst_throw snd_throw fst_call snd_call


section \<open>The signature\<close>

lemma length_hex_fixed: "length (hex_fixed k v) = k"
  by (induction k arbitrary: v) simp_all

lemma length_expected_signature: "length (expected_signature rt w body) = 128"
  by (simp add: expected_signature_def digest_hex_def length_hex_fixed)

lemma truthy_expected_signature: "expected_signature rt w body \<noteq> []"
proof
  assume "expected_signature rt w body = []"
  then have "length (expected_signature rt w body) = 0" by simp
  then show False by (simp add: length_expected_signature)
qed

lemma wrong_length_not_expected:
  assumes "length s \<noteq> 128"
  shows "s \<noteq> expected_signature rt w body"
proof
  assume "s = expected_signature rt w body"
  then have "length s = 128" by (simp add: length_expected_signature)
  with assms show False by simp
qed

lemma verifyPaystackWebhook_iff:
  "verifyPaystackWebhook rt w body s \<longleftrightarrow> s = expected_signature rt w body"
  by (auto simp: verifyPaystackWebhook_def expected_signature_def Let_def)

lemma expected_signature_plunk:
  "expected_signature rt (w\<lparr>plunk_send := p\<rparr>) body = expected_signature rt w body"
  by (simp add: expected_signature_def PAYSTACK_SECRET_KEY_def)

lemma signed_request_simps:
  "raw_body (signed_request rt w body) = body"
  "x_paystack_signature (signed_request rt w body) = Some (expected_signature rt w body)"
  by (simp_all add: signed_request_def)



subsection \<open>The hexadecimal encoding\<close>











subsection \<open>The text of the body\<close>

lemma utf8_decode_ascii:
  "list_all (\<lambda>c. (of_char c :: nat) < 0x80) bs \<Longrightarrow> utf8_decode 0 0x80 0xBF [] bs = bs"
  by (induction bs) simp_all

lemma request_text_ascii:
  assumes "list_all (\<lambda>c. (of_char c :: nat) < 0x80) bs"
  shows "request_text bs = bs"
proof -
  have "take 3 bs \<noteq> byte_order_mark"
  proof
    assume "take 3 bs = byte_order_mark"
    then obtain cs where "bs = CHR 0xEF # cs"
      by (cases bs) (auto simp: byte_order_mark_def)
    with assms show False by simp
  qed
  with assms show ?thesis by (simp add: request_text_def utf8_decode_ascii)
qed

section \<open>The library functions\<close>

lemma send_via_plunk_eq: "send_via_plunk w msg = ([PlunkSend msg], Returned (delivered w msg))"
  by (cases "plunk_send w msg")
     (simp_all add: send_via_plunk_def call_def and_then_Returned and_then_Thrown
        try_catch_Returned try_catch_Thrown return_def delivered_def)






lemma no_email_createPaystackSubscription:
  "list_all (\<lambda>a. \<not> is_email a) (fst (createPaystackSubscription w c p))"
  by (auto simp add: createPaystackSubscription_def effect_simps split: outcome.splits)

lemma no_email_enableRecurringSubscription:
  "list_all (\<lambda>a. \<not> is_email a) (fst (enableRecurringSubscription w c m))"
  using no_email_createPaystackSubscription
  by (auto simp add: enableRecurringSubscription_def effect_simps deref_def Let_def
        split: outcome.splits option.splits)

subsection \<open>Amounts\<close>

lemma digit_char_0: "digit_char 0 = CHR ''0''"
  by (simp add: digit_char_def)

lemma decimal_small: "n < 10 \<Longrightarrow> decimal n = [digit_char n]"
  by (simp add: decimal.simps)

lemma decimal_step: "10 \<le> n \<Longrightarrow> decimal n = decimal (n div 10) @ [digit_char (n mod 10)]"
  by (subst decimal.simps) simp

lemma decimal_nonempty: "decimal n \<noteq> []"
  by (cases "n < 10") (simp_all add: decimal_small decimal_step)

lemma decimal_split_100:
  assumes "100 \<le> n"
  shows "decimal n = decimal (n div 100) @ [digit_char (n mod 100 div 10), digit_char (n mod 10)]"
proof -
  from assms have a: "10 \<le> n" and b: "10 \<le> n div 10" by simp_all
  have c: "n div 10 div 10 = n div 100" by (simp add: div_mult2_eq [symmetric])
  have d: "n div 10 mod 10 = n mod 100 div 10"
  proof -
    have "n mod 100 = n mod (10 * 10)" by simp
    also have "\<dots> = 10 * (n div 10 mod 10) + n mod 10" by (rule mod_mult2_eq)
    finally show ?thesis by simp
  qed
  show ?thesis
    by (simp add: decimal_step [OF a] decimal_step [OF b] c d)
qed

lemma round_whole: "nat \<lfloor>(of_nat n :: rat) / 100 * 10 ^ 2 + 1 / 2\<rfloor> = n"
proof -
  have "\<lfloor>(of_nat n :: rat) + 1 / 2\<rfloor> = int n"
    by (rule floor_unique) simp_all
  then show ?thesis by simp
qed

lemma toFixed_whole:
  assumes "n < 10 ^ 23"
  shows "toFixed ts (of_nat n / 100) 2 =
           decimal (n div 100) @ ''.'' @ [digit_char (n mod 100 div 10), digit_char (n mod 10)]"
proof -
  have big: "\<not> (10 :: rat) ^ 21 \<le> \<bar>of_nat n / 100\<bar>"
  proof -
    have "(of_nat n :: rat) < of_nat (10 ^ 23)" using assms by (simp only: of_nat_less_iff)
    then show ?thesis by simp
  qed
  have neg: "\<not> (of_nat n :: rat) / 100 < 0" by simp
  have ab: "\<bar>(of_nat n :: rat) / 100\<bar> = of_nat n / 100" by simp
  consider "n < 10" | "10 \<le> n" "n < 100" | "100 \<le> n" by linarith
  then show ?thesis
  proof cases
    case 1
    then have m: "decimal n = [digit_char n]" by (rule decimal_small)
    from 1 have z: "n div 100 = 0" "n mod 100 div 10 = 0" "n mod 10 = n" by simp_all
    show ?thesis
      unfolding toFixed_def Let_def ab round_whole
      using big neg by (simp add: m z decimal_small digit_char_0)
  next
    case 2
    then have m: "decimal n = [digit_char (n div 10), digit_char (n mod 10)]"
      by (simp add: decimal_step decimal_small)
    from 2 have z: "n div 100 = 0" "n mod 100 = n" by simp_all
    show ?thesis
      unfolding toFixed_def Let_def ab round_whole
      using big neg by (simp add: m z decimal_small digit_char_0)
  next
    case 3
    show ?thesis
      unfolding toFixed_def Let_def ab round_whole
      using big neg by (simp add: decimal_split_100 [OF 3] decimal_nonempty)
  qed
qed

lemma formatPaystackAmount_whole:
  assumes "n < 10 ^ 23"
  shows "formatPaystackAmount rt (of_nat n) =
           ''R'' @ decimal (n div 100) @ ''.'' @ [digit_char (n mod 100 div 10), digit_char (n mod 10)]"
  by (simp add: formatPaystackAmount_def toFixed_whole [OF assms])

lemma formatPaystackAmount_3990000: "formatPaystackAmount rt 3990000 = ''R39900.00''"
proof -
  have "(3990000::nat) < 10 ^ 23" by simp
  from formatPaystackAmount_whole [OF this]
  have "formatPaystackAmount rt 3990000 = ''R'' @ decimal 39900 @ ''.'' @ [digit_char 0, digit_char 0]"
    by simp
  moreover have "decimal 39900 = ''39900''"
    by (simp add: decimal_step decimal_small digit_char_def)
  ultimately show ?thesis
    by (simp add: digit_char_def)
qed

section \<open>The webhook handlers\<close>

lemma snd_handlePaymentSuccess: "snd (handlePaymentSuccess rt w ev) = Returned ()"
  by (simp add: handlePaymentSuccess_def snd_try_catch snd_return split: outcome.splits)

lemma snd_handlePaymentFailed: "snd (handlePaymentFailed rt w ev) = Returned ()"
  by (simp add: handlePaymentFailed_def snd_try_catch snd_return split: outcome.splits)





lemma dispatch_unreadable:
  assumes "\<not> payload_readable rt body"
  shows "fst (dispatch rt w body) = [] \<and> (\<exists>e. snd (dispatch rt w body) = Thrown e)"
  using assms
  by (auto simp add: dispatch_def payload_readable_def effect_simps deref_def
        split: outcome.splits option.splits)

lemma dispatch_readable:
  assumes "payload_readable rt body"
  shows "snd (dispatch rt w body) = Returned ()"
  using assms
  by (auto simp add: dispatch_def payload_readable_def effect_simps deref_def
        snd_handlePaymentSuccess snd_handlePaymentFailed
        split: outcome.splits option.splits)



section \<open>The webhook endpoint\<close>

lemma POST_webhook_accepted:
  assumes "x_paystack_signature request = Some (expected_signature rt w (raw_body request))"
  shows "POST_webhook rt w request =
           (fst (dispatch rt w (raw_body request)),
            Returned \<lparr>http_status = 200,
                       json_body = (if payload_readable rt (raw_body request)
                                    then JObj [(''received'', JBool True)]
                                    else JObj [(''received'', JBool True),
                                               (''error'', JStr ''Processing error'')])\<rparr>)"
proof (cases "payload_readable rt (raw_body request)")
  case True
  then have "snd (dispatch rt w (raw_body request)) = Returned ()"
    by (rule dispatch_readable)
  then obtain tr where d: "dispatch rt w (raw_body request) = (tr, Returned ())"
    by (cases "dispatch rt w (raw_body request)") simp
  show ?thesis
    by (simp add: POST_webhook_def Let_def assms truthy_expected_signature
        verifyPaystackWebhook_iff True d and_then_Returned fst_return snd_return
        try_catch_Returned NextResponse_json_def)
next
  case False
  then obtain e where "fst (dispatch rt w (raw_body request)) = []"
    and "snd (dispatch rt w (raw_body request)) = Thrown e"
    using dispatch_unreadable by blast
  then have d: "dispatch rt w (raw_body request) = ([], Thrown e)"
    by (simp add: prod_eq_iff)
  show ?thesis
    by (simp add: POST_webhook_def Let_def assms truthy_expected_signature
        verifyPaystackWebhook_iff False d and_then_Thrown try_catch_Thrown fst_return snd_return
        NextResponse_json_def)
qed

lemma POST_webhook_missing:
  assumes "\<not> truthy_str (x_paystack_signature request)"
  shows "POST_webhook rt w request =
           ([], Returned \<lparr>http_status = 400,
                          json_body = JObj [(''error'', JStr ''No signature provided'')]\<rparr>)"
  by (simp add: POST_webhook_def Let_def assms return_def try_catch_Returned NextResponse_json_def)

lemma POST_webhook_mismatch:
  assumes "x_paystack_signature request = Some s" and "s \<noteq> []"
    and "s \<noteq> expected_signature rt w (raw_body request)"
  shows "POST_webhook rt w request =
           ([], Returned \<lparr>http_status = 400,
                          json_body = JObj [(''error'', JStr ''Invalid signature'')]\<rparr>)"
  by (simp add: POST_webhook_def Let_def assms verifyPaystackWebhook_iff return_def
        try_catch_Returned NextResponse_json_def)

lemma POST_webhook_rejected:
  assumes "x_paystack_signature request \<noteq> Some (expected_signature rt w (raw_body request))"
  shows "POST_webhook rt w request =
           ([], Returned \<lparr>http_status = 400,
                  json_body = JObj [(''error'',
                     JStr (if truthy_str (x_paystack_signature request)
                           then ''Invalid signature'' else ''No signature provided''))]\<rparr>)"
proof (cases "truthy_str (x_paystack_signature request)")
  case False
  then show ?thesis by (simp add: POST_webhook_missing)
next
  case True
  then obtain s where "x_paystack_signature request = Some s" and "s \<noteq> []"
    by (cases "x_paystack_signature request") auto
  with assms True show ?thesis by (simp add: POST_webhook_mismatch)
qed

lemma snd_POST_webhook_plunk:
  "snd (POST_webhook rt (w\<lparr>plunk_send := p\<rparr>) request) = snd (POST_webhook rt w request)"
proof (cases "x_paystack_signature request = Some (expected_signature rt w (raw_body request))")
  case True
  then have "x_paystack_signature request
               = Some (expected_signature rt (w\<lparr>plunk_send := p\<rparr>) (raw_body request))"
    by (simp add: expected_signature_plunk)
  from POST_webhook_accepted [OF this] POST_webhook_accepted [OF True]
  show ?thesis by simp
next
  case False
  then have "x_paystack_signature request
               \<noteq> Some (expected_signature rt (w\<lparr>plunk_send := p\<rparr>) (raw_body request))"
    by (simp add: expected_signature_plunk)
  from POST_webhook_rejected [OF this] POST_webhook_rejected [OF False]
  show ?thesis by simp
qed

section \<open>The subscription endpoint\<close>

lemma property_eq: "b \<noteq> JNull \<Longrightarrow> property b k = return (field_of b k)"
  by (cases b) (simp_all add: property_def field_of_def)

lemma POST_subscribe_falsy:
  assumes "request_json rt (sub_body request) = Returned b" and "b \<noteq> JNull"
    and "\<not> truthy (field_of b ''name'') \<or> \<not> truthy (field_of b ''email'')
         \<or> \<not> truthy (field_of b ''phone'')"
  shows "POST_subscribe rt w request = ([], Returned missing_fields_response)"
proof -
  have "POST_subscribe rt w request =
          try_catch (return (NextResponse_json (JObj [(''error'', JStr ''Missing required fields'')])
                      (Some 400)))
            (\<lambda>e. return (NextResponse_json (JObj [(''error'', JStr ''Failed to initiate subscription'')])
                      (Some 500)))"
    unfolding POST_subscribe_def assms(1) and_then_Returned property_eq [OF assms(2)] and_then_return
    using assms(3) by (simp add: fst_return snd_return return_def)
  then show ?thesis
    by (simp add: return_def try_catch_Returned NextResponse_json_def missing_fields_response_def)
qed

lemma POST_subscribe_unreadable:
  assumes "request_json rt (sub_body request) = Thrown e
           \<or> request_json rt (sub_body request) = Returned JNull"
  shows "POST_subscribe rt w request =
           ([], Returned \<lparr>http_status = 500,
                   json_body = JObj [(''error'', JStr ''Failed to initiate subscription'')]\<rparr>)"
  using assms
  by (auto simp add: POST_subscribe_def and_then_Thrown and_then_Returned property_def throw_def
        try_catch_Thrown return_def NextResponse_json_def)

lemma POST_subscribe_missing_field:
  assumes "request_json rt (sub_body request) = Returned b" and "b \<noteq> JNull"
    and "field_of b ''name'' = None \<or> field_of b ''email'' = None \<or> field_of b ''phone'' = None"
  shows "POST_subscribe rt w request =
           ([], Returned \<lparr>http_status = 400,
                   json_body = JObj [(''error'', JStr ''Missing required fields'')]\<rparr>)"
proof -
  from assms(3) have "\<not> truthy (field_of b ''name'') \<or> \<not> truthy (field_of b ''email'')
         \<or> \<not> truthy (field_of b ''phone'')"
    by auto
  from POST_subscribe_falsy [OF assms(1,2) this] show ?thesis
    by (simp add: missing_fields_response_def)
qed

section \<open>The concrete environment\<close>

lemma example_bodies_distinct:
  "charge_failed_body \<noteq> charge_success_body"
  "''not json'' \<noteq> charge_success_body"
  "''not json'' \<noteq> charge_failed_body"
  "charge_failed_no_customer_body \<noteq> charge_success_body"
  "charge_failed_no_customer_body \<noteq> charge_failed_body"
  "''not json'' \<noteq> charge_failed_no_customer_body"
  by (simp_all add: charge_failed_body_def charge_success_body_def
        charge_failed_no_customer_body_def json_text_def)

lemma example_parse:
  "JSON_parse example_runtime charge_success_body = Returned charge_success_event"
  "JSON_parse example_runtime charge_failed_body = Returned charge_failed_event"
  "JSON_parse example_runtime ''not json'' = Thrown None"
  "JSON_parse example_runtime charge_failed_no_customer_body
     = Returned charge_failed_no_customer_event"
  by (simp_all add: example_runtime_def example_bodies_distinct)

lemma subscribe_bodies_distinct:
  "no_phone_body \<noteq> ''null''" "empty_phone_body \<noteq> ''null''" "empty_phone_body \<noteq> no_phone_body"
  by (simp_all add: no_phone_body_def empty_phone_body_def json_text_def)

lemma example_request_json:
  "request_json example_runtime ''null'' = Returned JNull"
  "request_json example_runtime no_phone_body =
     Returned (JObj [(''name'', JStr ''Thandi Nkosi''), (''email'', JStr ''thandi@example.com'')])"
  "request_json example_runtime empty_phone_body =
     Returned (JObj [(''name'', JStr ''Thandi Nkosi''), (''email'', JStr ''thandi@example.com''),
                     (''phone'', JStr [])])"
  by (simp_all add: example_runtime_def subscribe_bodies_distinct)








lemma example_not_delivered: "\<not> delivered example_world m"
  by (simp add: delivered_def example_world_def)

section \<open>The claims\<close>

text \<open>
  C1. A webhook request whose \<^verbatim>\<open>x-paystack-signature\<close> header is missing, or whose
  signature differs from the hex digest of the raw body, is answered with status 400, and
  no call leaves the process: no gateway call is made and no email send is started.
  Neither handler ran, since \<^verbatim>\<open>handlePaymentSuccess\<close> begins with the verification call
  (\<open>handlePaymentSuccess_starts_with_verify\<close>) and \<^verbatim>\<open>handlePaymentFailed\<close> sends its email
  (\<open>handlePaymentFailed_eq\<close>) whenever \<^verbatim>\<open>POST\<close> invokes them.
\<close>

theorem webhook_bad_signature_rejected:
  assumes "x_paystack_signature request = None
           \<or> x_paystack_signature request \<noteq> Some (expected_signature rt w (raw_body request))"
  shows "fst (POST_webhook rt w request) = []
         \<and> (\<exists>b. snd (POST_webhook rt w request) = Returned \<lparr>http_status = 400, json_body = b\<rparr>)"
proof -
  from assms have "x_paystack_signature request \<noteq> Some (expected_signature rt w (raw_body request))"
    by auto
  then show ?thesis by (simp add: POST_webhook_rejected)
qed

theorem webhook_bad_signature_rejected_witness:
  "fst (POST_webhook example_runtime example_world
          \<lparr>raw_body = charge_success_body, x_paystack_signature = Some ''deadbeef''\<rparr>) = []
   \<and> (\<exists>b. snd (POST_webhook example_runtime example_world
          \<lparr>raw_body = charge_success_body, x_paystack_signature = Some ''deadbeef''\<rparr>)
        = Returned \<lparr>http_status = 400, json_body = b\<rparr>)"
proof -
  have "''deadbeef'' \<noteq> expected_signature example_runtime example_world charge_success_body"
    by (rule wrong_length_not_expected) simp
  then show ?thesis
    using webhook_bad_signature_rejected
      [of "\<lparr>raw_body = charge_success_body, x_paystack_signature = Some ''deadbeef''\<rparr>"
          example_runtime example_world]
    by simp
qed



text \<open>
  A request with the correct signature whose body is not JSON is answered 200 with the
  body \<^verbatim>\<open>{received: true, error: 'Processing error'}\<close>, which is not \<^verbatim>\<open>{received: true}\<close>.
\<close>

theorem malformed_payload_body_counterexample:
  "snd (POST_webhook example_runtime example_world
          (signed_request example_runtime example_world ''not json''))
   \<noteq> Returned \<lparr>http_status = 200, json_body = JObj [(''received'', JBool True)]\<rparr>"
  by (simp add: POST_webhook_accepted signed_request_simps payload_readable_def example_parse)

text \<open>
  C3, amended. Once signature verification passes, \<^verbatim>\<open>POST /api/webhook/paystack\<close>
  responds 200 with a body whose \<^verbatim>\<open>received\<close> field is true: exactly
  \<^verbatim>\<open>{received: true}\<close> when the payload parses and carries \<^verbatim>\<open>data\<close> and
  \<^verbatim>\<open>data.customer\<close> (whatever happens inside a handler, which catches its own errors),
  and \<^verbatim>\<open>{received: true, error: 'Processing error'}\<close> when the payload is malformed.
  Status 400 is left to a missing or invalid signature.
\<close>

theorem webhook_acknowledged_after_signature:
  assumes "x_paystack_signature request = Some (expected_signature rt w (raw_body request))"
  shows "snd (POST_webhook rt w request) =
           Returned \<lparr>http_status = 200,
                      json_body = (if payload_readable rt (raw_body request)
                                   then JObj [(''received'', JBool True)]
                                   else JObj [(''received'', JBool True),
                                              (''error'', JStr ''Processing error'')])\<rparr>"
  by (simp add: POST_webhook_accepted [OF assms])

theorem webhook_acknowledged_after_signature_witness:
  "snd (POST_webhook example_runtime example_world
          (signed_request example_runtime example_world charge_success_body)) =
     Returned \<lparr>http_status = 200, json_body = JObj [(''received'', JBool True)]\<rparr>"
  using webhook_acknowledged_after_signature
    [of "signed_request example_runtime example_world charge_success_body"
        example_runtime example_world]
  by (simp add: signed_request_simps payload_readable_def example_parse charge_success_event_def)




text \<open>
  A request without the header and a request with a wrong signature get different
  responses: the bodies differ.
\<close>

theorem rejections_distinguishable_counterexample:
  "snd (POST_webhook example_runtime example_world
          \<lparr>raw_body = charge_success_body, x_paystack_signature = None\<rparr>)
   \<noteq> snd (POST_webhook example_runtime example_world
            \<lparr>raw_body = charge_success_body, x_paystack_signature = Some ''deadbeef''\<rparr>)"
proof -
  have "''deadbeef'' \<noteq> expected_signature example_runtime example_world charge_success_body"
    by (rule wrong_length_not_expected) simp
  then show ?thesis
    by (simp add: POST_webhook_missing POST_webhook_mismatch)
qed

text \<open>
  C5, amended. The two rejections share the status 400 and the shape
  \<^verbatim>\<open>{error: message}\<close>, and neither does any processing, but the message names the
  cause: \<^verbatim>\<open>'No signature provided'\<close> when the header is absent or empty,
  \<^verbatim>\<open>'Invalid signature'\<close> when a signature is present and does not match.
\<close>

theorem rejection_names_its_cause:
  assumes "\<not> truthy_str (x_paystack_signature missing)"
    and "x_paystack_signature wrong = Some s" and "s \<noteq> []"
    and "s \<noteq> expected_signature rt w (raw_body wrong)"
  shows "POST_webhook rt w missing =
           ([], Returned \<lparr>http_status = 400,
                          json_body = JObj [(''error'', JStr ''No signature provided'')]\<rparr>)
         \<and> POST_webhook rt w wrong =
           ([], Returned \<lparr>http_status = 400,
                          json_body = JObj [(''error'', JStr ''Invalid signature'')]\<rparr>)"
  using assms by (simp add: POST_webhook_missing POST_webhook_mismatch)

theorem rejection_names_its_cause_witness:
  "POST_webhook example_runtime example_world
     \<lparr>raw_body = charge_failed_body, x_paystack_signature = None\<rparr> =
       ([], Returned \<lparr>http_status = 400,
                      json_body = JObj [(''error'', JStr ''No signature provided'')]\<rparr>)
   \<and> POST_webhook example_runtime example_world
       \<lparr>raw_body = charge_failed_body, x_paystack_signature = Some ''00ff''\<rparr> =
       ([], Returned \<lparr>http_status = 400,
                      json_body = JObj [(''error'', JStr ''Invalid signature'')]\<rparr>)"
proof -
  have "''00ff'' \<noteq> expected_signature example_runtime example_world charge_failed_body"
    by (rule wrong_length_not_expected) simp
  then show ?thesis
    using rejection_names_its_cause
      [of "\<lparr>raw_body = charge_failed_body, x_paystack_signature = None\<rparr>"
          "\<lparr>raw_body = charge_failed_body, x_paystack_signature = Some ''00ff''\<rparr>"
          "''00ff''" example_runtime example_world]
    by simp
qed

text \<open>
  C6. \<^verbatim>\<open>formatPaystackAmount\<close> divides the amount in minor units by 100 and renders it
  with exactly two decimals after an \<^verbatim>\<open>R\<close>: for a whole amount \<open>n\<close>, the major units
  \<open>n div 100\<close>, a point, and the two digits of \<open>n mod 100\<close>. In particular
  \<^verbatim>\<open>formatPaystackAmount(3990000)\<close> is \<^verbatim>\<open>R39900.00\<close>.
\<close>

theorem formatPaystackAmount_two_decimals:
  assumes "n < 2 ^ 52"
  shows "formatPaystackAmount rt (of_nat n) =
           ''R'' @ decimal (n div 100) @ ''.'' @ [digit_char (n mod 100 div 10), digit_char (n mod 10)]
         \<and> formatPaystackAmount rt 3990000 = ''R39900.00''"
proof
  have "(2::nat) ^ 52 < 10 ^ 23" by simp
  with assms have "n < 10 ^ 23" by linarith
  then show "formatPaystackAmount rt (of_nat n) =
           ''R'' @ decimal (n div 100) @ ''.'' @ [digit_char (n mod 100 div 10), digit_char (n mod 10)]"
    by (rule formatPaystackAmount_whole)
next
  show "formatPaystackAmount rt 3990000 = ''R39900.00''"
    by (rule formatPaystackAmount_3990000)
qed

theorem formatPaystackAmount_two_decimals_witness:
  "(12345::nat) < 2 ^ 52 \<and> formatPaystackAmount example_runtime 12345 = ''R123.45''
   \<and> formatPaystackAmount example_runtime 3990000 = ''R39900.00''"
  using formatPaystackAmount_two_decimals [of 12345 example_runtime]
  by (simp add: decimal_step decimal_small digit_char_def)

text \<open>
  C7. A request to \<^verbatim>\<open>POST /api/subscribe\<close> whose body is the JSON value \<^verbatim>\<open>null\<close> has
  none of the required fields. The endpoint makes no gateway call and sends no email, as
  the claim says, but it answers 500 with \<^verbatim>\<open>{error: 'Failed to initiate subscription'}\<close>
  where the claim requires 400 with \<^verbatim>\<open>{error: 'Missing required fields'}\<close>: the body is
  destructured before the required fields are checked, and destructuring \<^verbatim>\<open>null\<close>
  throws. Every other parsed body that lacks a required field is answered as the claim
  says (\<open>POST_subscribe_missing_field\<close>).
\<close>

theorem subscribe_null_body_answers_500:
  "POST_subscribe example_runtime example_world \<lparr>sub_body = ''null''\<rparr> =
     ([], Returned \<lparr>http_status = 500,
             json_body = JObj [(''error'', JStr ''Failed to initiate subscription'')]\<rparr>)"
  by (rule POST_subscribe_unreadable) (simp add: example_request_json)

theorem subscribe_null_body_answers_500_witness:
  "fst (POST_subscribe example_runtime example_world \<lparr>sub_body = ''null''\<rparr>) = []
   \<and> snd (POST_subscribe example_runtime example_world \<lparr>sub_body = ''null''\<rparr>)
       \<noteq> Returned \<lparr>http_status = 400,
                    json_body = JObj [(''error'', JStr ''Missing required fields'')]\<rparr>"
  using subscribe_null_body_answers_500 by simp

text \<open>
  C8. Every notification function returns \<^verbatim>\<open>true\<close> when the mail provider accepts the
  message and \<^verbatim>\<open>false\<close> when the send fails; it never throws. The response of
  \<^verbatim>\<open>POST /api/webhook/paystack\<close> is the same whatever the mail provider does, in
  particular the same as when every send succeeds.
\<close>

theorem email_failure_swallowed:
  "snd (sendNewSubscriptionNotification w sd)
     = Returned (delivered w (NewSubscriptionNotification (env_ADMIN_EMAIL w) sd))
   \<and> snd (sendSubscriptionInitiatedEmail w sd)
     = Returned (delivered w (SubscriptionInitiatedEmail sd))
   \<and> snd (sendPaymentConfirmationEmail w pd)
     = Returned (delivered w (PaymentConfirmationEmail pd))
   \<and> snd (sendPaymentReceivedNotification w pd)
     = Returned (delivered w (PaymentReceivedNotification (env_ADMIN_EMAIL w) pd))
   \<and> snd (sendPaymentFailedEmail w fd)
     = Returned (delivered w (PaymentFailedEmail fd))
   \<and> snd (sendFormSubmissionEmail w formData formType)
     = Returned (delivered w (FormSubmissionEmail (env_ADMIN_EMAIL w) formData
                               (case formType of None \<Rightarrow> ''Contact Form'' | Some t \<Rightarrow> t)))
   \<and> (\<not> delivered w m \<longleftrightarrow> (\<exists>e. plunk_send w m = Thrown e))
   \<and> snd (POST_webhook rt (w\<lparr>plunk_send := p\<rparr>) request) = snd (POST_webhook rt w request)"
proof -
  have "\<not> delivered w m \<longleftrightarrow> (\<exists>e. plunk_send w m = Thrown e)"
    by (cases "plunk_send w m") (simp_all add: delivered_def)
  then show ?thesis
    by (simp add: sendNewSubscriptionNotification_def sendSubscriptionInitiatedEmail_def
          sendPaymentConfirmationEmail_def sendPaymentReceivedNotification_def
          sendPaymentFailedEmail_def sendFormSubmissionEmail_def send_via_plunk_eq
          snd_POST_webhook_plunk)
qed

theorem email_failure_swallowed_witness:
  "snd (sendPaymentConfirmationEmail example_world example_payment_data) = Returned False
   \<and> snd (sendPaymentReceivedNotification example_world example_payment_data) = Returned False
   \<and> snd (sendPaymentFailedEmail example_world example_failed_data) = Returned False
   \<and> snd (POST_webhook example_runtime (example_world\<lparr>plunk_send := (\<lambda>message. Returned ())\<rparr>)
            (signed_request example_runtime example_world charge_success_body))
     = snd (POST_webhook example_runtime example_world
            (signed_request example_runtime example_world charge_success_body))"
  using email_failure_swallowed
    [of example_world example_subscription_data example_payment_data example_failed_data
        "[]" None "PaymentFailedEmail example_failed_data" example_runtime
        "\<lambda>message. Returned ()"
        "signed_request example_runtime example_world charge_success_body"]
  by (simp add: example_not_delivered)




text \<open>
  C10. \<^verbatim>\<open>POST /api/subscribe\<close> treats a falsy value of \<^verbatim>\<open>name\<close>, \<^verbatim>\<open>email\<close> or
  \<^verbatim>\<open>phone\<close> (the empty string, \<^verbatim>\<open>0\<close>, \<^verbatim>\<open>false\<close>, \<^verbatim>\<open>null\<close>) like an absent field: a
  request in which one of them is present and falsy is rejected with status 400 and
  \<^verbatim>\<open>{error: 'Missing required fields'}\<close> before any call to the gateway, exactly as the
  request whose body has that field removed.
\<close>

theorem subscribe_falsy_field_rejected:
  assumes "request_json rt (sub_body request) = Returned (JObj kvs)"
    and "k = ''name'' \<or> k = ''email'' \<or> k = ''phone''"
    and "map_of kvs k = Some v" and "\<not> truthy (Some v)"
    and "request_json rt (sub_body absent) = Returned (JObj (filter (\<lambda>kv. fst kv \<noteq> k) kvs))"
  shows "POST_subscribe rt w request =
           ([], Returned \<lparr>http_status = 400,
                   json_body = JObj [(''error'', JStr ''Missing required fields'')]\<rparr>)
         \<and> POST_subscribe rt w absent = POST_subscribe rt w request"
proof -
  have "field_of (JObj kvs) k = Some v" by (simp add: field_of_def assms(3))
  with assms(2,4) have a: "\<not> truthy (field_of (JObj kvs) ''name'')
      \<or> \<not> truthy (field_of (JObj kvs) ''email'') \<or> \<not> truthy (field_of (JObj kvs) ''phone'')"
    by auto
  have "map_of (filter (\<lambda>kv. fst kv \<noteq> k) kvs) k = None"
    by (simp add: map_of_eq_None_iff image_iff)
  then have "field_of (JObj (filter (\<lambda>kv. fst kv \<noteq> k) kvs)) k = None"
    by (simp add: field_of_def)
  with assms(2) have b: "\<not> truthy (field_of (JObj (filter (\<lambda>kv. fst kv \<noteq> k) kvs)) ''name'')
      \<or> \<not> truthy (field_of (JObj (filter (\<lambda>kv. fst kv \<noteq> k) kvs)) ''email'')
      \<or> \<not> truthy (field_of (JObj (filter (\<lambda>kv. fst kv \<noteq> k) kvs)) ''phone'')"
    by auto
  from POST_subscribe_falsy [OF assms(1) _ a] POST_subscribe_falsy [OF assms(5) _ b]
  show ?thesis by (simp add: missing_fields_response_def)
qed

theorem subscribe_falsy_field_rejected_witness:
  "POST_subscribe example_runtime example_world \<lparr>sub_body = empty_phone_body\<rparr> =
     ([], Returned \<lparr>http_status = 400,
             json_body = JObj [(''error'', JStr ''Missing required fields'')]\<rparr>)
   \<and> POST_subscribe example_runtime example_world \<lparr>sub_body = no_phone_body\<rparr> =
     POST_subscribe example_runtime example_world \<lparr>sub_body = empty_phone_body\<rparr>"
  using subscribe_falsy_field_rejected
    [of example_runtime "\<lparr>sub_body = empty_phone_body\<rparr>"
        "[(''name'', JStr ''Thandi Nkosi''), (''email'', JStr ''thandi@example.com''),
          (''phone'', JStr [])]"
        "''phone''" "JStr []" "\<lparr>sub_body = no_phone_body\<rparr>" example_world]
  by (simp add: example_request_json)

end
